theory Spec2Isabelle
  imports Main "HOL-Library.AList" "HOL-Library.Sublist"
begin

section \<open>The Kanboard JSON-RPC client (kanboard.py)\<close>

text \<open>
  A shallow embedding of \<^verbatim>\<open>kanboard.py\<close>. Python \<^verbatim>\<open>str\<close> and \<^verbatim>\<open>bytes\<close> are both
  modelled as \<^typ>\<open>string\<close>: for text, one \<^typ>\<open>char\<close> stands for one code point below 256,
  for bytes it stands for one octet. The case conversions below are the ASCII ones, so
  every statement about letter case is made for ASCII text.
\<close>

subsection \<open>Python string primitives used by the client\<close>

definition is_lower :: "char \<Rightarrow> bool" where
  "is_lower c = (97 \<le> (of_char c :: nat) \<and> (of_char c :: nat) \<le> 122)"

definition is_upper :: "char \<Rightarrow> bool" where
  "is_upper c = (65 \<le> (of_char c :: nat) \<and> (of_char c :: nat) \<le> 90)"

definition is_cased :: "char \<Rightarrow> bool" where
  "is_cased c = (is_lower c \<or> is_upper c)"

definition to_upper :: "char \<Rightarrow> char" where
  "to_upper c = (if is_lower c then char_of ((of_char c :: nat) - 32) else c)"

definition to_lower :: "char \<Rightarrow> char" where
  "to_lower c = (if is_upper c then char_of ((of_char c :: nat) + 32) else c)"

text \<open>
  \<^verbatim>\<open>str.title()\<close>: a cased character that follows a cased character is lower-cased, any
  other character is title-cased (upper-cased, for ASCII). The flag is CPython's
  \<^verbatim>\<open>previous_is_cased\<close>.
\<close>

fun title_from :: "bool \<Rightarrow> string \<Rightarrow> string" where
  "title_from previous_is_cased [] = []"
| "title_from previous_is_cased (c # cs) =
     (if previous_is_cased then to_lower c else to_upper c) # title_from (is_cased c) cs"

definition title :: "string \<Rightarrow> string" where
  "title s = title_from False s"

text \<open>\<^verbatim>\<open>str.split(sep)\<close> for a one-character separator: never empty, keeps empty segments.\<close>

fun split :: "char \<Rightarrow> string \<Rightarrow> string list" where
  "split sep [] = [[]]"
| "split sep (c # cs) =
     (if c = sep then [] # split sep cs
      else (case split sep cs of [] \<Rightarrow> [[c]] | w # ws \<Rightarrow> (c # w) # ws))"

text \<open>\<^verbatim>\<open>s.endswith(marker)\<close>.\<close>

definition endswith :: "string \<Rightarrow> string \<Rightarrow> bool" where
  "endswith s marker =
     (length marker \<le> length s \<and> drop (length s - length marker) s = marker)"

text \<open>
  \<^verbatim>\<open>s[:n]\<close> for an integer \<^verbatim>\<open>n\<close>: a negative bound counts from the end and is clipped
  at the start of the string.
\<close>

definition slice_to :: "string \<Rightarrow> int \<Rightarrow> string" where
  "slice_to s n = (if n < 0 then take (nat (int (length s) + n)) s else take (nat n) s)"

subsection \<open>Method-name resolver\<close>

definition DEFAULT_AUTH_HEADER :: string where
  "DEFAULT_AUTH_HEADER = ''Authorization''"

definition ASYNC_FUNCNAME_MARKER :: string where
  "ASYNC_FUNCNAME_MARKER = ''_async''"

definition is_async_method_name :: "string \<Rightarrow> bool" where
  "is_async_method_name funcname = endswith funcname ASYNC_FUNCNAME_MARKER"

definition get_funcname_from_async_name :: "string \<Rightarrow> string" where
  "get_funcname_from_async_name funcname =
     slice_to funcname (int (length funcname) - int (length ASYNC_FUNCNAME_MARKER))"

text \<open>
  \<^verbatim>\<open>components[0] + "".join(x.title() for x in components[1:])\<close>. The list of components
  is never empty (lemma \<open>split_not_Nil\<close>), so \<^verbatim>\<open>components[0]\<close> never raises.
\<close>

definition to_camel_case :: "string \<Rightarrow> string" where
  "to_camel_case snake_str =
     (let components = split (CHR ''_'') snake_str
      in hd components @ concat (map title (tl components)))"






subsection \<open>Values, errors and the outside world\<close>

text \<open>
  The Python objects that \<^verbatim>\<open>json.loads\<close> returns and \<^verbatim>\<open>json.dumps\<close> accepts:
  \<^verbatim>\<open>None\<close>, \<^verbatim>\<open>bool\<close>, \<^verbatim>\<open>int\<close>, \<^verbatim>\<open>float\<close> (kept as its literal, never computed with),
  \<^verbatim>\<open>str\<close>, \<^verbatim>\<open>list\<close> and \<^verbatim>\<open>dict\<close> (its items in insertion order, each key once).
\<close>

datatype json =
    JNull
  | JBool bool
  | JInt int
  | JFloat string
  | JString string
  | JArray "json list"
  | JObject "(string \<times> json) list"

text \<open>
  The exceptions a call can end with. \<open>ClientError\<close> carries its argument; the messages
  of the interpreter's own \<open>AttributeError\<close> and \<open>TypeError\<close> are not modelled.
\<close>

datatype error = ClientError json | AttributeError | TypeError

type_synonym 'a result = "error + 'a"

datatype verify_mode = CERT_NONE | CERT_REQUIRED

record ssl_context =
  ctx_cafile :: "string option"
  check_hostname :: bool
  verify :: verify_mode

record http_request =
  req_url :: string
  req_headers :: "(string \<times> string) list"
  req_data :: json
  req_context :: ssl_context

type_synonym loop = nat

text \<open>
  What the client observes of the outside world: the requests handed to the HTTP
  library, and the event loops whose \<^verbatim>\<open>run_in_executor\<close> was called, both in order.
\<close>

record world =
  sent :: "http_request list"
  jobs :: "loop list"

text \<open>
  The library calls the client relies on. \<open>rt_loads\<close> is
  \<^verbatim>\<open>json.loads(response.decode(errors="ignore"))\<close>: the parsed value, or the text of the
  \<^verbatim>\<open>ValueError\<close> it raises. \<open>rt_urlopen\<close> is the building of the request and of the TLS
  context and \<^verbatim>\<open>urlopen(...).read()\<close> (lines 152 to 162): the body read, or the text of the
  exception raised; the reply may depend on what was sent before.
  \<open>rt_get_event_loop\<close> is \<^verbatim>\<open>asyncio.get_event_loop()\<close>, \<open>None\<close> when it raises
  \<^verbatim>\<open>RuntimeError\<close>, and \<open>rt_new_event_loop\<close> is \<^verbatim>\<open>asyncio.new_event_loop()\<close>.
\<close>

record runtime =
  rt_loads :: "string \<Rightarrow> string + json"
  rt_urlopen :: "http_request list \<Rightarrow> http_request \<Rightarrow> string + string"
  rt_get_event_loop :: "loop option"
  rt_new_event_loop :: loop

subsection \<open>The client object\<close>

text \<open>
  The attributes set by \<^verbatim>\<open>__init__\<close>. \<open>event_loop\<close> is \<open>None\<close> when the attribute
  \<^verbatim>\<open>_event_loop\<close> was never assigned.
\<close>

record client =
  url :: string
  username :: string
  password :: string
  auth_header :: string
  cafile :: "string option"
  insecure :: bool
  user_agent :: string
  ignore_hostname_verification :: bool
  event_loop :: "loop option"

text \<open>
  \<^verbatim>\<open>Client.__init__\<close>. The only assignment to \<^verbatim>\<open>_event_loop\<close> is under \<^verbatim>\<open>if not loop\<close>
  (an event loop object is truthy, so the test is \<^verbatim>\<open>loop is None\<close>).
\<close>

definition Client_init ::
  "runtime \<Rightarrow> string \<Rightarrow> string \<Rightarrow> string \<Rightarrow> string \<Rightarrow> string option \<Rightarrow> bool \<Rightarrow> bool \<Rightarrow>
   string \<Rightarrow> loop option \<Rightarrow> client" where
  "Client_init rt url0 username0 password0 auth_header0 cafile0 insecure0
     ignore_hostname_verification0 user_agent0 loop0 =
     \<lparr> url = url0, username = username0, password = password0, auth_header = auth_header0,
       cafile = cafile0, insecure = insecure0, user_agent = user_agent0,
       ignore_hostname_verification = ignore_hostname_verification0,
       event_loop =
         (case loop0 of
            None \<Rightarrow>
              (case rt_get_event_loop rt of
                 Some l \<Rightarrow> Some l
               | None \<Rightarrow> Some (rt_new_event_loop rt))
          | Some _ \<Rightarrow> None) \<rparr>"

subsection \<open>Response parsing\<close>

text \<open>\<^verbatim>\<open>needle in s\<close> for two strings.\<close>

fun str_contains :: "string \<Rightarrow> string \<Rightarrow> bool" where
  "str_contains [] needle = (needle = [])"
| "str_contains (c # cs) needle = (take (length needle) (c # cs) = needle \<or> str_contains cs needle)"

text \<open>
  \<^verbatim>\<open>key in body\<close>: key membership for a dict, element membership for a list, substring
  test for a string, \<^verbatim>\<open>TypeError\<close> for anything else.
\<close>

fun py_in :: "string \<Rightarrow> json \<Rightarrow> bool result" where
  "py_in key (JObject items) = Inr (map_of items key \<noteq> None)"
| "py_in key (JArray xs) = Inr (JString key \<in> set xs)"
| "py_in key (JString s) = Inr (str_contains s key)"
| "py_in key _ = Inl TypeError"

text \<open>\<^verbatim>\<open>obj.get(key)\<close>: only a dict has the method; a missing key gives \<^verbatim>\<open>None\<close>.\<close>

fun py_get :: "json \<Rightarrow> string \<Rightarrow> json result" where
  "py_get (JObject items) key = Inr (case map_of items key of None \<Rightarrow> JNull | Some v \<Rightarrow> v)"
| "py_get _ key = Inl AttributeError"

text \<open>
  \<^verbatim>\<open>Client._parse_response\<close>. Only \<^verbatim>\<open>ValueError\<close> is caught, so the \<^verbatim>\<open>ClientError\<close> raised
  inside the \<^verbatim>\<open>try\<close> and the errors of \<^verbatim>\<open>in\<close> and \<^verbatim>\<open>.get\<close> pass through.
\<close>

definition parse_response :: "(string \<Rightarrow> string + json) \<Rightarrow> string \<Rightarrow> json result" where
  "parse_response loads response =
     (if response = [] then Inl (ClientError (JString ''Empty response from server''))
      else
        (case loads response of
           Inl e \<Rightarrow> Inl (ClientError (JString (''Failed to parse JSON response: '' @ e)))
         | Inr body \<Rightarrow>
             (case py_in ''error'' body of
                Inl ex \<Rightarrow> Inl ex
              | Inr True \<Rightarrow>
                  (case py_get body ''error'' of
                     Inl ex \<Rightarrow> Inl ex
                   | Inr err \<Rightarrow>
                       (case py_get err ''message'' of
                          Inl ex \<Rightarrow> Inl ex
                        | Inr message \<Rightarrow> Inl (ClientError message)))
              | Inr False \<Rightarrow> py_get body ''result'')))"

subsection \<open>Request executor\<close>

text \<open>
  \<^verbatim>\<open>str.encode()\<close>: UTF-8, one octet for a code point below 128 and two for the others
  below 256.
\<close>

definition encode :: "string \<Rightarrow> string" where
  "encode s =
     concat (map (\<lambda>c. let n = (of_char c :: nat)
                      in if n < 128 then [c]
                         else [char_of (192 + n div 64), char_of (128 + n mod 64)]) s)"

text \<open>\<^verbatim>\<open>base64.b64encode\<close>: the standard alphabet, padded with \<^verbatim>\<open>=\<close>.\<close>

definition b64_digit :: "nat \<Rightarrow> char" where
  "b64_digit n =
     ''ABCDEFGHIJKLMNOPQRSTUVWXYZabcdefghijklmnopqrstuvwxyz0123456789+/'' ! (n mod 64)"

fun b64encode :: "string \<Rightarrow> string" where
  "b64encode [] = []"
| "b64encode [a] =
     (let x = (of_char a :: nat)
      in [b64_digit (x div 4), b64_digit ((x mod 4) * 16), CHR ''='', CHR ''=''])"
| "b64encode [a, b] =
     (let x = (of_char a :: nat); y = (of_char b :: nat)
      in [b64_digit (x div 4), b64_digit ((x mod 4) * 16 + y div 16),
          b64_digit ((y mod 16) * 4), CHR ''=''])"
| "b64encode (a # b # c # rest) =
     (let x = (of_char a :: nat); y = (of_char b :: nat); z = (of_char c :: nat)
      in [b64_digit (x div 4), b64_digit ((x mod 4) * 16 + y div 16),
          b64_digit ((y mod 16) * 4 + z div 64), b64_digit (z mod 64)] @ b64encode rest)"

text \<open>
  \<^verbatim>\<open>Client._do_request\<close>. Every exception of the \<^verbatim>\<open>try\<close> block becomes a
  \<^verbatim>\<open>ClientError\<close> carrying its text; the body read goes to \<^verbatim>\<open>_parse_response\<close>. The
  request body is kept as the value given to \<^verbatim>\<open>json.dumps\<close>.
\<close>

definition do_request ::
  "client \<Rightarrow> runtime \<Rightarrow> (string \<times> string) list \<Rightarrow> json \<Rightarrow> world \<Rightarrow> json result \<times> world" where
  "do_request self rt headers body w =
     (let ctx0 = \<lparr> ctx_cafile = cafile self, check_hostname = True, verify = CERT_REQUIRED \<rparr>;
          ctx1 = (if insecure self then ctx0\<lparr> check_hostname := False, verify := CERT_NONE \<rparr>
                  else ctx0);
          ctx2 = (if ignore_hostname_verification self then ctx1\<lparr> check_hostname := False \<rparr>
                  else ctx1);
          request = \<lparr> req_url = url self, req_headers = headers, req_data = body,
                      req_context = ctx2 \<rparr>;
          w' = w\<lparr> sent := sent w @ [request] \<rparr>
      in (case rt_urlopen rt (sent w) request of
            Inl e \<Rightarrow> (Inl (ClientError (JString e)), w')
          | Inr response \<Rightarrow> (parse_response (rt_loads rt) response, w')))"

text \<open>
  \<^verbatim>\<open>Client.execute\<close>, after Python has bound its arguments: \<open>kwargs\<close> holds the keywords
  other than \<^verbatim>\<open>self\<close> and \<^verbatim>\<open>method\<close>. A dict display stores its items from left to
  right, a later item replacing the value of an equal earlier key, which is
  \<^const>\<open>AList.update\<close>.
\<close>

definition execute ::
  "client \<Rightarrow> runtime \<Rightarrow> string \<Rightarrow> (string \<times> json) list \<Rightarrow> world \<Rightarrow> json result \<times> world" where
  "execute self rt method kwargs w =
     (let payload = JObject [(''id'', JInt 1), (''jsonrpc'', JString ''2.0''),
                             (''method'', JString method), (''params'', JObject kwargs)];
          credentials = b64encode (encode (username self @ '':'' @ password self));
          auth_header_prefix = (if auth_header self = DEFAULT_AUTH_HEADER then ''Basic '' else []);
          headers =
            AList.update ''User-Agent'' (user_agent self)
              (AList.update ''Content-Type'' ''application/json''
                 (AList.update (auth_header self) (auth_header_prefix @ credentials) []))
      in do_request self rt headers payload w)"

subsection \<open>Dynamic dispatch and the asynchronous facade\<close>

text \<open>
  The call \<^verbatim>\<open>self.execute(method=m, **kwargs)\<close>: a keyword named \<^verbatim>\<open>self\<close> or \<^verbatim>\<open>method\<close>
  collides with a parameter already bound, and Python raises \<^verbatim>\<open>TypeError\<close> before the body
  of \<^verbatim>\<open>execute\<close> runs.
\<close>

definition call_execute ::
  "client \<Rightarrow> runtime \<Rightarrow> string \<Rightarrow> (string \<times> json) list \<Rightarrow> world \<Rightarrow> json result \<times> world" where
  "call_execute self rt method kwargs w =
     (if map_of kwargs ''self'' \<noteq> None \<or> map_of kwargs ''method'' \<noteq> None
      then (Inl TypeError, w)
      else execute self rt method kwargs w)"

text \<open>
  \<^verbatim>\<open>await loop.run_in_executor(None, job)\<close>: the job runs on a worker of the loop's
  default executor and the awaiting caller receives its result or its exception.
\<close>

definition run_in_executor ::
  "loop \<Rightarrow> (world \<Rightarrow> json result \<times> world) \<Rightarrow> world \<Rightarrow> json result \<times> world" where
  "run_in_executor l job w = job (w\<lparr> jobs := jobs w @ [l] \<rparr>)"

text \<open>The synchronous closure of \<^verbatim>\<open>__getattr__\<close>; \<open>args\<close> is never read.\<close>

definition sync_function ::
  "client \<Rightarrow> runtime \<Rightarrow> string \<Rightarrow> json list \<Rightarrow> (string \<times> json) list \<Rightarrow> world \<Rightarrow>
   json result \<times> world" where
  "sync_function self rt name args kwargs w =
     call_execute self rt (to_camel_case name) kwargs w"

text \<open>
  The expression
  \<^verbatim>\<open>await self._event_loop.run_in_executor(None, functools.partial(self.execute, method=m, **kwargs))\<close>
  of the asynchronous closure. \<^verbatim>\<open>self._event_loop\<close> is read first: when the attribute was
  never assigned the lookup falls to \<^verbatim>\<open>__getattr__\<close>, which returns the synchronous
  closure for the name \<^verbatim>\<open>_event_loop\<close>, and a function has no \<^verbatim>\<open>run_in_executor\<close>. Then
  the partial application is built, which fails on a second \<^verbatim>\<open>method\<close> keyword. Then
  the job is submitted.
\<close>

definition submit_execute ::
  "client \<Rightarrow> runtime \<Rightarrow> string \<Rightarrow> (string \<times> json) list \<Rightarrow> world \<Rightarrow> json result \<times> world" where
  "submit_execute self rt method kwargs w =
     (case event_loop self of
        None \<Rightarrow> (Inl AttributeError, w)
      | Some l \<Rightarrow>
          (if map_of kwargs ''method'' \<noteq> None then (Inl TypeError, w)
           else run_in_executor l (call_execute self rt method kwargs) w))"

text \<open>The asynchronous closure of \<^verbatim>\<open>__getattr__\<close>, awaited; \<open>args\<close> is never read.\<close>

definition async_function ::
  "client \<Rightarrow> runtime \<Rightarrow> string \<Rightarrow> json list \<Rightarrow> (string \<times> json) list \<Rightarrow> world \<Rightarrow>
   json result \<times> world" where
  "async_function self rt name args kwargs w =
     submit_execute self rt (to_camel_case (get_funcname_from_async_name name)) kwargs w"

text \<open>
  \<^verbatim>\<open>Client.__getattr__\<close>, reached for every name that is not an attribute of the object:
  the closure for the name, to be called with positional and keyword arguments.
\<close>

definition getattr ::
  "client \<Rightarrow> runtime \<Rightarrow> string \<Rightarrow> json list \<Rightarrow> (string \<times> json) list \<Rightarrow> world \<Rightarrow>
   json result \<times> world" where
  "getattr self rt name =
     (if is_async_method_name name then async_function self rt name
      else sync_function self rt name)"

subsection \<open>Concrete surroundings for evaluation\<close>

text \<open>
  A runtime whose JSON decoder knows the response bodies used in the examples and
  rejects everything else as \<^verbatim>\<open>json.loads\<close> rejects \<^verbatim>\<open>not json\<close>, and whose server answers
  every request with the given body; no event loop is current, and the new one is
  number 7.
\<close>

definition example_loads :: "string \<Rightarrow> string + json" where
  \<open>example_loads s =
     (if s = ''{"result": 42}'' then Inr (JObject [(''result'', JInt 42)])
      else if s = ''{"error": {"message": "Not found"}}''
        then Inr (JObject [(''error'', JObject [(''message'', JString ''Not found'')])])
      else if s = ''{"error": "oops"}'' then Inr (JObject [(''error'', JString ''oops'')])
      else if s = ''[]'' then Inr (JArray [])
      else Inl ''Expecting value: line 1 column 1 (char 0)'')\<close>

definition example_runtime :: "string \<Rightarrow> runtime" where
  "example_runtime reply =
     \<lparr> rt_loads = example_loads, rt_urlopen = (\<lambda>history request. Inr reply),
       rt_get_event_loop = None, rt_new_event_loop = 7 \<rparr>"

definition example_client :: "string \<Rightarrow> loop option \<Rightarrow> client" where
  "example_client auth_header0 loop0 =
     Client_init (example_runtime []) ''http://localhost/jsonrpc.php'' ''jsonrpc'' ''token''
       auth_header0 None False False ''Kanboard Python API Client'' loop0"

definition world0 :: world where
  "world0 = \<lparr> sent = [], jobs = [] \<rparr>"

section \<open>Name translation\<close>











section \<open>Async marker\<close>

lemma endswith_suffix: "endswith s marker \<longleftrightarrow> suffix marker s"
proof
  assume "endswith s marker"
  then have "s = take (length s - length marker) s @ marker"
    by (metis append_take_drop_id endswith_def)
  then show "suffix marker s" by (metis suffixI)
next
  assume "suffix marker s"
  then obtain p where "s = p @ marker" by (auto simp: suffix_def)
  then show "endswith s marker" by (simp add: endswith_def)
qed

lemma is_async_append: "is_async_method_name (base @ ''_async'')"
  by (simp add: is_async_method_name_def ASYNC_FUNCNAME_MARKER_def endswith_def)

lemma get_funcname_strips: "get_funcname_from_async_name (base @ ''_async'') = base"
  by (simp add: get_funcname_from_async_name_def slice_to_def ASYNC_FUNCNAME_MARKER_def)

text \<open>
  C7. A name is dispatched to the asynchronous closure if and only if it ends with the
  marker \<^verbatim>\<open>_async\<close>. For a name \<open>base @ ''_async''\<close> the marker is stripped and the job
  submitted to the event loop calls \<open>execute\<close> with the wire name of \<open>base\<close>; a name
  without the marker is called synchronously with its own wire name. The name
  \<^verbatim>\<open>create_project_async\<close> is asynchronous with wire name \<^verbatim>\<open>createProject\<close>.
\<close>

theorem async_marker_resolution:
  "(is_async_method_name name \<longleftrightarrow> suffix ''_async'' name)
   \<and> get_funcname_from_async_name (base @ ''_async'') = base
   \<and> getattr self rt (base @ ''_async'') args kwargs w =
       submit_execute self rt (to_camel_case base) kwargs w
   \<and> (\<not> suffix ''_async'' name \<longrightarrow>
        getattr self rt name args kwargs w = call_execute self rt (to_camel_case name) kwargs w)
   \<and> is_async_method_name ''create_project_async''
   \<and> to_camel_case (get_funcname_from_async_name ''create_project_async'') = ''createProject''"
proof (intro conjI impI)
  show iff: "is_async_method_name name \<longleftrightarrow> suffix ''_async'' name"
    by (simp add: is_async_method_name_def ASYNC_FUNCNAME_MARKER_def endswith_suffix)
  show "get_funcname_from_async_name (base @ ''_async'') = base"
    by (rule get_funcname_strips)
  show "getattr self rt (base @ ''_async'') args kwargs w =
          submit_execute self rt (to_camel_case base) kwargs w"
    by (simp add: getattr_def is_async_append async_function_def get_funcname_strips)
  show "getattr self rt name args kwargs w = call_execute self rt (to_camel_case name) kwargs w"
    if "\<not> suffix ''_async'' name"
    using that iff by (simp add: getattr_def sync_function_def)
  show "is_async_method_name ''create_project_async''" by code_simp
  show "to_camel_case (get_funcname_from_async_name ''create_project_async'') = ''createProject''"
    by code_simp
qed

theorem async_marker_resolution_witness:
  "\<not> suffix ''_async'' ''get_me''
   \<and> getattr (example_client DEFAULT_AUTH_HEADER None) (example_runtime ''[]'') ''get_me'' [] []
         world0 =
       call_execute (example_client DEFAULT_AUTH_HEADER None) (example_runtime ''[]'') ''getMe'' []
         world0"
proof -
  have h: "\<not> suffix ''_async'' ''get_me''"
    by (simp add: suffix_def)
  have c: "to_camel_case ''get_me'' = ''getMe''" by code_simp
  from async_marker_resolution [of "''get_me''" "[]" "example_client DEFAULT_AUTH_HEADER None"
      "example_runtime ''[]''" "[]" "[]" world0] h c
  show ?thesis by simp
qed

section \<open>Request executor\<close>

lemma do_request_sent:
  "\<exists>ctx. sent (snd (do_request self rt headers body w)) =
     sent w @
     [\<lparr> req_url = url self, req_headers = headers, req_data = body, req_context = ctx \<rparr>]"
  by (simp add: do_request_def Let_def split: sum.splits)

lemma do_request_jobs: "jobs (snd (do_request self rt headers body w)) = jobs w"
  by (simp add: do_request_def Let_def split: sum.splits)

lemma do_request_jobs_update:
  "fst (do_request self rt headers body (w\<lparr> jobs := j \<rparr>)) = fst (do_request self rt headers body w)
   \<and> sent (snd (do_request self rt headers body (w\<lparr> jobs := j \<rparr>))) =
       sent (snd (do_request self rt headers body w))"
  by (simp add: do_request_def Let_def split: sum.splits)

lemma do_request_empty_reply:
  "\<forall>request. rt_urlopen rt (sent w) request = Inr [] \<Longrightarrow>
   fst (do_request self rt headers body w) =
     Inl (ClientError (JString ''Empty response from server''))"
  by (simp add: do_request_def Let_def parse_response_def)

lemma execute_sent:
  "\<exists>ctx. sent (snd (execute self rt M P w)) =
     sent w @
     [\<lparr> req_url = url self,
        req_headers =
          AList.update ''User-Agent'' (user_agent self)
            (AList.update ''Content-Type'' ''application/json''
               (AList.update (auth_header self)
                  ((if auth_header self = DEFAULT_AUTH_HEADER then ''Basic '' else []) @
                   b64encode (encode (username self @ '':'' @ password self))) [])),
        req_data = JObject [(''id'', JInt 1), (''jsonrpc'', JString ''2.0''),
                            (''method'', JString M), (''params'', JObject P)],
        req_context = ctx \<rparr>]"
  unfolding execute_def Let_def by (rule do_request_sent)

lemma execute_jobs: "jobs (snd (execute self rt M P w)) = jobs w"
  unfolding execute_def Let_def by (rule do_request_jobs)

lemma execute_jobs_update:
  "fst (execute self rt M P (w\<lparr> jobs := j \<rparr>)) = fst (execute self rt M P w)
   \<and> sent (snd (execute self rt M P (w\<lparr> jobs := j \<rparr>))) = sent (snd (execute self rt M P w))"
  unfolding execute_def Let_def by (rule do_request_jobs_update)

lemma execute_empty_reply:
  "\<forall>request. rt_urlopen rt (sent w) request = Inr [] \<Longrightarrow>
   fst (execute self rt M P w) = Inl (ClientError (JString ''Empty response from server''))"
  unfolding execute_def Let_def by (rule do_request_empty_reply)

text \<open>
  C4. Whatever was sent before, a call of \<open>execute\<close> with wire method name \<open>M\<close> and
  keyword parameters \<open>P\<close> hands exactly one more request to the HTTP library, and the
  body of that request is the envelope with \<open>id\<close> 1, \<open>jsonrpc\<close> \<^verbatim>\<open>2.0\<close>, \<open>method\<close> \<open>M\<close> and
  \<open>params\<close> \<open>P\<close> as given: the identifier never depends on the calls made earlier.
\<close>

theorem execute_envelope:
  "map req_data (sent (snd (execute self rt M P w))) =
     map req_data (sent w) @
     [JObject [(''id'', JInt 1), (''jsonrpc'', JString ''2.0''),
               (''method'', JString M), (''params'', JObject P)]]"
proof -
  obtain r where "sent (snd (execute self rt M P w)) = sent w @ [r]"
    and "req_data r = JObject [(''id'', JInt 1), (''jsonrpc'', JString ''2.0''),
                               (''method'', JString M), (''params'', JObject P)]"
    using execute_sent [of self rt M P w] by force
  then show ?thesis by simp
qed




text \<open>
  C8, as amended. An empty response body makes the call fail with a \<open>ClientError\<close> whose
  message is exactly \<^verbatim>\<open>Empty response from server\<close>.
\<close>

theorem empty_response_message:
  "parse_response loads [] = Inl (ClientError (JString ''Empty response from server''))
   \<and> ((\<forall>request. rt_urlopen rt (sent w) request = Inr []) \<longrightarrow>
        fst (execute self rt M P w) = Inl (ClientError (JString ''Empty response from server'')))"
  by (simp add: parse_response_def execute_empty_reply)

theorem empty_response_message_witness:
  "(\<forall>request. rt_urlopen (example_runtime []) (sent world0) request = Inr [])
   \<and> fst (execute (example_client DEFAULT_AUTH_HEADER None) (example_runtime []) ''getMe'' []
            world0) =
       Inl (ClientError (JString ''Empty response from server''))"
proof -
  have h: "\<forall>request. rt_urlopen (example_runtime []) (sent world0) request = Inr []"
    by (simp add: example_runtime_def)
  from empty_response_message [of example_loads "example_runtime []" world0
      "example_client DEFAULT_AUTH_HEADER None" "''getMe''" "[]"] h
  show ?thesis by simp
qed

text \<open>
  C8 as stated fails on the capital: the message of the code starts with \<^verbatim>\<open>Empty\<close>, not
  \<^verbatim>\<open>empty\<close>.
\<close>

theorem empty_response_message_counterexample:
  "fst (execute (example_client DEFAULT_AUTH_HEADER None) (example_runtime []) ''getMe'' []
          world0) \<noteq>
     Inl (ClientError (JString ''empty response from server''))"
  by code_simp

section \<open>Response parsing and error unpacking\<close>

lemma parse_response_error_object:
  assumes "response \<noteq> []" and "loads response = Inr (JObject items)"
    and "map_of items ''error'' = Some (JObject err)"
  shows "parse_response loads response =
           Inl (ClientError (case map_of err ''message'' of None \<Rightarrow> JNull | Some m \<Rightarrow> m))"
  using assms by (simp add: parse_response_def)

lemma parse_response_result:
  assumes "response \<noteq> []" and "loads response = Inr (JObject items)"
    and "map_of items ''error'' = None"
  shows "parse_response loads response =
           Inr (case map_of items ''result'' of None \<Rightarrow> JNull | Some v \<Rightarrow> v)"
  using assms by (simp add: parse_response_def)

lemma parse_response_not_json:
  assumes "response \<noteq> []" and "loads response = Inl e"
  shows "parse_response loads response =
           Inl (ClientError (JString (''Failed to parse JSON response: '' @ e)))"
  using assms by (simp add: parse_response_def)

lemma do_request_transport_failure:
  assumes "\<forall>request. rt_urlopen rt (sent w) request = Inl e"
  shows "fst (do_request self rt headers body w) = Inl (ClientError (JString e))"
  using assms by (simp add: do_request_def Let_def)

lemma parse_response_examples:
  \<open>parse_response example_loads ''{"result": 42}'' = Inr (JInt 42)\<close>
  \<open>parse_response example_loads ''{"error": {"message": "Not found"}}'' =
     Inl (ClientError (JString ''Not found''))\<close>
  \<open>parse_response example_loads ''not json'' =
     Inl (ClientError (JString
       ''Failed to parse JSON response: Expecting value: line 1 column 1 (char 0)''))\<close>
  by code_simp+

text \<open>
  C2 holds for a body whose \<open>error\<close> entry is itself an object (lemma
  \<open>parse_response_error_object\<close>) and for a body without an \<open>error\<close> entry (lemma
  \<open>parse_response_result\<close>). It fails on a JSON object whose \<open>error\<close> entry is not an
  object: for the body \<^verbatim>\<open>{"error": "oops"}\<close> the second \<^verbatim>\<open>.get\<close> is applied to a string and
  the call ends with \<open>AttributeError\<close>, not with a \<open>ClientError\<close>.
\<close>

theorem parse_response_error_not_object:
  \<open>parse_response example_loads ''{"error": "oops"}'' = Inl AttributeError\<close>
  by code_simp

text \<open>
  C3 holds for a transport failure, an empty body and a body that is not JSON (lemmas
  \<open>do_request_transport_failure\<close>, \<open>do_request_empty_reply\<close> and
  \<open>parse_response_not_json\<close>). It fails on a body that is valid JSON but not an object:
  for the body \<^verbatim>\<open>[]\<close> the call ends with \<open>AttributeError\<close>, which is not a
  \<open>ClientError\<close>.
\<close>

theorem execute_non_object_body:
  "fst (execute (example_client DEFAULT_AUTH_HEADER None) (example_runtime ''[]'') ''getMe'' []
          world0) =
     Inl AttributeError"
  by code_simp

section \<open>Dynamic dispatch and the asynchronous facade\<close>

lemma execute_data:
  "map req_data (sent (snd (execute self rt M P w))) =
     map req_data (sent w) @
     [JObject [(''id'', JInt 1), (''jsonrpc'', JString ''2.0''),
               (''method'', JString M), (''params'', JObject P)]]"
proof -
  obtain r where "sent (snd (execute self rt M P w)) = sent w @ [r]"
    and "req_data r = JObject [(''id'', JInt 1), (''jsonrpc'', JString ''2.0''),
                               (''method'', JString M), (''params'', JObject P)]"
    using execute_sent [of self rt M P w] by force
  then show ?thesis by simp
qed

lemma call_execute_jobs_update:
  "fst (call_execute self rt M P (w\<lparr> jobs := j \<rparr>)) = fst (call_execute self rt M P w)
   \<and> sent (snd (call_execute self rt M P (w\<lparr> jobs := j \<rparr>))) =
       sent (snd (call_execute self rt M P w))"
  by (simp add: call_execute_def execute_jobs_update)

lemma async_like_sync_on_own_loop:
  assumes "event_loop self = Some l"
  shows "fst (getattr self rt (N @ ''_async'') args kwargs w) =
           fst (call_execute self rt (to_camel_case N) kwargs w)
         \<and> sent (snd (getattr self rt (N @ ''_async'') args kwargs w)) =
           sent (snd (call_execute self rt (to_camel_case N) kwargs w))"
proof (cases "map_of kwargs ''method'' = None")
  case True
  then show ?thesis
    using assms
    by (simp add: getattr_def is_async_append async_function_def get_funcname_strips
        submit_execute_def run_in_executor_def call_execute_jobs_update)
next
  case False
  then show ?thesis
    using assms
    by (simp add: getattr_def is_async_append async_function_def get_funcname_strips
        submit_execute_def call_execute_def)
qed

lemma default_loop_used:
  "event_loop (Client_init rt0 u n p h cf i g ua None) =
     Some (case rt_get_event_loop rt0 of Some l \<Rightarrow> l | None \<Rightarrow> rt_new_event_loop rt0)"
  by (simp add: Client_init_def split: option.splits)

lemma async_job_on_own_loop:
  assumes "event_loop self = Some l"
    and "map_of kwargs ''self'' = None" and "map_of kwargs ''method'' = None"
  shows "jobs (snd (getattr self rt (N @ ''_async'') args kwargs w)) = jobs w @ [l]"
  using assms
  by (simp add: getattr_def is_async_append async_function_def get_funcname_strips
      submit_execute_def run_in_executor_def call_execute_def execute_jobs)

text \<open>
  C6 holds on a client built without a \<open>loop\<close> argument (lemma
  \<open>async_like_sync_on_own_loop\<close>). It fails on a client built with one: the
  synchronous call of \<^verbatim>\<open>get_me\<close> sends its request and returns 42, the asynchronous form
  \<^verbatim>\<open>get_me_async\<close> sends nothing and ends with \<open>AttributeError\<close>.
\<close>

theorem async_differs_with_supplied_loop:
  \<open>fst (getattr (example_client DEFAULT_AUTH_HEADER (Some 3)) (example_runtime ''{"result": 42}'')
          ''get_me'' [] [] world0) = Inr (JInt 42)
   \<and> getattr (example_client DEFAULT_AUTH_HEADER (Some 3)) (example_runtime ''{"result": 42}'')
          ''get_me_async'' [] [] world0 = (Inl AttributeError, world0)\<close>
  by code_simp

text \<open>
  C9 holds when no loop is supplied (lemmas \<open>default_loop_used\<close> and
  \<open>async_job_on_own_loop\<close>). When a loop is supplied, \<^verbatim>\<open>__init__\<close> never stores it: every
  asynchronous call on such a client ends with \<open>AttributeError\<close>, no job is submitted to
  any loop and nothing is sent.
\<close>

theorem supplied_loop_never_used:
  "event_loop (Client_init rt0 u n p h cf i g ua (Some l)) = None
   \<and> getattr (Client_init rt0 u n p h cf i g ua (Some l)) rt (base @ ''_async'') args kwargs w =
       (Inl AttributeError, w)"
  by (simp add: Client_init_def getattr_def is_async_append async_function_def submit_execute_def)

text \<open>
  C10. A dispatched call, synchronous or asynchronous, behaves with any positional
  arguments exactly as with none: same result or error, same requests sent. Only the
  keyword arguments reach the request: the synchronous call, and the asynchronous one
  on a client with its own event loop, send the envelope whose \<open>params\<close> are the
  keyword arguments as given.
\<close>

theorem positional_arguments_discarded:
  "getattr self rt name args kwargs w = getattr self rt name [] kwargs w
   \<and> (map_of kwargs ''self'' = None \<and> map_of kwargs ''method'' = None
        \<and> (is_async_method_name name \<longrightarrow> event_loop self \<noteq> None) \<longrightarrow>
      map req_data (sent (snd (getattr self rt name args kwargs w))) =
        map req_data (sent w) @
        [JObject [(''id'', JInt 1), (''jsonrpc'', JString ''2.0''),
                  (''method'', JString (to_camel_case
                     (if is_async_method_name name then get_funcname_from_async_name name
                      else name))),
                  (''params'', JObject kwargs)]])"
proof (intro conjI impI)
  show "getattr self rt name args kwargs w = getattr self rt name [] kwargs w"
    by (simp add: getattr_def sync_function_def async_function_def)
next
  assume a: "map_of kwargs ''self'' = None \<and> map_of kwargs ''method'' = None
             \<and> (is_async_method_name name \<longrightarrow> event_loop self \<noteq> None)"
  show "map req_data (sent (snd (getattr self rt name args kwargs w))) =
        map req_data (sent w) @
        [JObject [(''id'', JInt 1), (''jsonrpc'', JString ''2.0''),
                  (''method'', JString (to_camel_case
                     (if is_async_method_name name then get_funcname_from_async_name name
                      else name))),
                  (''params'', JObject kwargs)]]"
  proof (cases "is_async_method_name name")
    case False
    then show ?thesis
      using a by (simp add: getattr_def sync_function_def call_execute_def execute_data)
  next
    case True
    with a obtain l where l: "event_loop self = Some l" by auto
    have "sent (w\<lparr> jobs := jobs w @ [l] \<rparr>) = sent w" by simp
    then show ?thesis
      using a True l
        execute_data [of self rt "to_camel_case (get_funcname_from_async_name name)"
          kwargs "w\<lparr> jobs := jobs w @ [l] \<rparr>"]
      by (simp add: getattr_def async_function_def submit_execute_def run_in_executor_def
          call_execute_def)
  qed
qed

theorem positional_arguments_discarded_witness:
  \<open>map req_data (sent (snd (getattr (example_client DEFAULT_AUTH_HEADER None)
       (example_runtime ''{"result": 42}'') ''create_project'' [JInt 5, JString ''x'']
       [(''name'', JString ''My project'')] world0))) =
     [JObject [(''id'', JInt 1), (''jsonrpc'', JString ''2.0''),
               (''method'', JString ''createProject''),
               (''params'', JObject [(''name'', JString ''My project'')])]]\<close>
proof -
  have s: "\<not> is_async_method_name ''create_project''" by code_simp
  have c: "to_camel_case ''create_project'' = ''createProject''" by code_simp
  have k: "map_of [(''name'', JString ''My project'')] ''self'' = None
           \<and> map_of [(''name'', JString ''My project'')] ''method'' = None
           \<and> (is_async_method_name ''create_project'' \<longrightarrow>
                event_loop (example_client DEFAULT_AUTH_HEADER None) \<noteq> None)"
    using s by simp
  have \<open>map req_data (sent (snd (getattr (example_client DEFAULT_AUTH_HEADER None)
       (example_runtime ''{"result": 42}'') ''create_project'' [JInt 5, JString ''x'']
       [(''name'', JString ''My project'')] world0))) =
     map req_data (sent world0) @
     [JObject [(''id'', JInt 1), (''jsonrpc'', JString ''2.0''),
               (''method'', JString (to_camel_case
                  (if is_async_method_name ''create_project''
                   then get_funcname_from_async_name ''create_project''
                   else ''create_project''))),
               (''params'', JObject [(''name'', JString ''My project'')])]]\<close>
    using positional_arguments_discarded [where kwargs = "[(''name'', JString ''My project'')]"
        and name = "''create_project''" and self = "example_client DEFAULT_AUTH_HEADER None"]
      k by blast
  then show ?thesis
    using s c by (simp add: world0_def)
qed

end
